theory Spec2Isabelle
  imports Main
begin

section \<open>Python strings\<close>

text \<open>
  A Python \<open>str\<close> is modelled as a \<open>string\<close>: a list of characters with code points
  \<open>0..255\<close>. Code points above 255 are outside the model. The library functions the
  program calls on strings are written out below as the library computes them.
\<close>

definition codepoint :: "char \<Rightarrow> nat" where
  "codepoint c = of_char c"

text \<open>\<open>str.isspace\<close> on one character, as \<open>str.strip()\<close> uses it.\<close>

definition is_space :: "char \<Rightarrow> bool" where
  "is_space c =
     (let n = codepoint c
      in (9 \<le> n \<and> n \<le> 13) \<or> (28 \<le> n \<and> n \<le> 32) \<or> n = 133 \<or> n = 160)"

definition py_strip :: "string \<Rightarrow> string" where
  "py_strip s = rev (dropWhile is_space (rev (dropWhile is_space s)))"

text \<open>\<open>s.startswith(p)\<close>.\<close>

definition startswith :: "string \<Rightarrow> string \<Rightarrow> bool" where
  "startswith s p = (take (length p) s = p)"

text \<open>\<open>s.find(sub)\<close>: the lowest index where \<open>sub\<close> starts, or \<open>-1\<close>.\<close>

fun py_find :: "string \<Rightarrow> string \<Rightarrow> int" where
  "py_find [] sub = (if sub = [] then 0 else -1)"
| "py_find (c # cs) sub =
     (if startswith (c # cs) sub then 0
      else (let r = py_find cs sub in if r < 0 then -1 else r + 1))"

text \<open>\<open>sub in s\<close>.\<close>

definition contains :: "string \<Rightarrow> string \<Rightarrow> bool" where
  "contains s sub = (py_find s sub \<noteq> -1)"

text \<open>\<open>s.rfind(c)\<close> for a single character \<open>c\<close>: the highest index of \<open>c\<close>, or \<open>-1\<close>.\<close>

fun rfind_char :: "string \<Rightarrow> char \<Rightarrow> int" where
  "rfind_char [] c = -1"
| "rfind_char (x # xs) c =
     (let r = rfind_char xs c
      in if 0 \<le> r then r + 1 else if x = c then 0 else -1)"

text \<open>\<open>s.split(",")\<close>, for a one-character separator: always at least one field.\<close>

fun split_char :: "char \<Rightarrow> string \<Rightarrow> string list" where
  "split_char sep [] = [[]]"
| "split_char sep (c # cs) =
     (if c = sep then [] # split_char sep cs
      else (case split_char sep cs of
              [] \<Rightarrow> [[c]]
            | f # fs \<Rightarrow> (c # f) # fs))"

text \<open>
  \<open>s.replace(old, new)\<close> for a non-empty \<open>old\<close>: the non-overlapping occurrences,
  leftmost first. The fuel argument is the length of the rest of the string.
\<close>

fun replace_fuel :: "nat \<Rightarrow> string \<Rightarrow> string \<Rightarrow> string \<Rightarrow> string" where
  "replace_fuel 0 s old new = s"
| "replace_fuel (Suc n) [] old new = []"
| "replace_fuel (Suc n) (c # cs) old new =
     (if startswith (c # cs) old
      then new @ replace_fuel n (drop (length old) (c # cs)) old new
      else c # replace_fuel n cs old new)"

definition py_replace :: "string \<Rightarrow> string \<Rightarrow> string \<Rightarrow> string" where
  "py_replace s old new = replace_fuel (length s) s old new"

text \<open>\<open>str.lower()\<close> on code points up to 255.\<close>

definition lower_char :: "char \<Rightarrow> char" where
  "lower_char c =
     (let n = codepoint c
      in if (65 \<le> n \<and> n \<le> 90) \<or> (192 \<le> n \<and> n \<le> 222 \<and> n \<noteq> 215)
         then char_of (n + 32) else c)"

definition py_lower :: "string \<Rightarrow> string" where
  "py_lower s = map lower_char s"

text \<open>
  \<open>str.splitlines()\<close>: the line boundaries below code point 256 are \<open>\n\<close>, \<open>\r\<close>,
  \<open>\r\n\<close> (one boundary), \<open>\v\<close>, \<open>\f\<close>, \<open>0x1c\<close>, \<open>0x1d\<close>, \<open>0x1e\<close> and \<open>0x85\<close>. Reading a
  file in text mode turns \<open>\r\n\<close> and \<open>\r\<close> into \<open>\n\<close> first, which leaves the lines the same.
\<close>

definition is_linebreak :: "char \<Rightarrow> bool" where
  "is_linebreak c =
     (let n = codepoint c
      in n = 10 \<or> n = 11 \<or> n = 12 \<or> n = 13 \<or> n = 28 \<or> n = 29 \<or> n = 30 \<or> n = 133)"

fun splitlines :: "string \<Rightarrow> string list" where
  "splitlines [] = []"
| "splitlines [c] = (if is_linebreak c then [[]] else [[c]])"
| "splitlines (c # d # cs) =
     (if c = CHR 0x0D \<and> d = CHR 0x0A then [] # splitlines cs
      else if is_linebreak c then [] # splitlines (d # cs)
      else (case splitlines (d # cs) of
              [] \<Rightarrow> [[c]]
            | l # ls \<Rightarrow> (c # l) # ls))"

section \<open>utils.py\<close>

subsection \<open>Paths\<close>

text \<open>\<open>os.path.join(a, b)\<close>, \<open>os.path.basename\<close> and \<open>os.path.splitext\<close> (POSIX).\<close>

definition path_join :: "string \<Rightarrow> string \<Rightarrow> string" where
  "path_join a b =
     (if startswith b ''/'' then b
      else if a = [] \<or> last a = CHR ''/'' then a @ b
      else a @ ''/'' @ b)"

definition basename :: "string \<Rightarrow> string" where
  "basename p = drop (nat (rfind_char p CHR ''/'' + 1)) p"

text \<open>
  The scan of \<open>splitext\<close> over the leading dots of the file name: true as soon as a
  character other than a dot is met before the last dot.
\<close>

function skip_leading_dots :: "string \<Rightarrow> int \<Rightarrow> int \<Rightarrow> bool" where
  "skip_leading_dots p filenameIndex dotIndex =
     (if filenameIndex < dotIndex
      then (if take 1 (drop (nat filenameIndex) p) \<noteq> ''.'' then True
            else skip_leading_dots p (filenameIndex + 1) dotIndex)
      else False)"
  by pat_completeness auto
termination
  by (relation "measure (\<lambda>(p, i, d). nat (d - i))") auto

declare skip_leading_dots.simps [simp del]

definition splitext :: "string \<Rightarrow> string \<times> string" where
  "splitext p =
     (let sepIndex = rfind_char p CHR ''/'';
          dotIndex = rfind_char p CHR ''.''
      in if dotIndex > sepIndex \<and> skip_leading_dots p (sepIndex + 1) dotIndex
         then (take (nat dotIndex) p, drop (nat dotIndex) p)
         else (p, []))"

subsection \<open>get_url_data\<close>

text \<open>
  \<open>urllib.parse.urlparse\<close> is a library function: the program reads the \<open>path\<close> and
  the \<open>hostname\<close> of its result. The model takes the parser as a parameter, so every
  theorem holds for whatever the parser returns.
\<close>

record parsed_url =
  path :: string
  hostname :: "string option"

record url_data =
  file_name :: string
  extension :: string
  host :: string

definition get_url_data :: "(string \<Rightarrow> parsed_url) \<Rightarrow> string \<Rightarrow> url_data" where
  "get_url_data urlparse url =
     (let parsed = urlparse url;
          fname = basename (path parsed)
      in \<lparr> file_name = fname,
           extension = snd (splitext fname),
           host = (case hostname parsed of None \<Rightarrow> [] | Some h \<Rightarrow> h) \<rparr>)"

text \<open>
  A parser for URLs of the shape \<open>scheme://netloc/path?query#fragment\<close> without
  \<open>;params\<close>, used to run the model on concrete URLs.
\<close>

definition urlparse_generic :: "string \<Rightarrow> parsed_url" where
  "urlparse_generic url =
     (let i = py_find url ''://'';
          rest = (if i < 0 then url else drop (nat i + 3) url);
          netloc = (if i < 0 then [] else takeWhile (\<lambda>c. c \<notin> set ''/?#'') rest);
          tail = (if i < 0 then url else dropWhile (\<lambda>c. c \<notin> set ''/?#'') rest)
      in \<lparr> path = takeWhile (\<lambda>c. c \<notin> set ''?#'') tail,
           hostname = (if netloc = [] then None else Some (py_lower netloc)) \<rparr>)"

subsection \<open>remove_illegal_chars\<close>

text \<open>
  The pattern \<open>[<>:"/\\|?*\']|[\0-\31]\<close> is an alternation of two character classes.
  In a class the escape \<open>\0\<close> is the character 0 and \<open>\31\<close> is octal: the character 25.
  Every match is one character long, so \<open>re.sub\<close> rewrites the string character by
  character.
\<close>

datatype class_item = Lit char | Range char char

fun item_matches :: "char \<Rightarrow> class_item \<Rightarrow> bool" where
  "item_matches c (Lit x) = (c = x)"
| "item_matches c (Range lo hi) = (codepoint lo \<le> codepoint c \<and> codepoint c \<le> codepoint hi)"

definition class_matches :: "class_item list \<Rightarrow> char \<Rightarrow> bool" where
  "class_matches cls c = list_ex (item_matches c) cls"

definition re_sub_classes :: "class_item list list \<Rightarrow> string \<Rightarrow> string \<Rightarrow> string" where
  "re_sub_classes alternatives repl s =
     concat (map (\<lambda>c. if list_ex (\<lambda>cls. class_matches cls c) alternatives then repl else [c]) s)"

definition octal :: "nat list \<Rightarrow> nat" where
  "octal ds = foldl (\<lambda>acc d. 8 * acc + d) 0 ds"

definition illegal_pattern :: "class_item list list" where
  "illegal_pattern =
     [[Lit CHR ''<'', Lit CHR ''>'', Lit CHR '':'', Lit CHR 0x22, Lit CHR ''/'', Lit CHR 0x5C,
       Lit CHR ''|'', Lit CHR ''?'', Lit CHR ''*'', Lit CHR 0x27],
      [Range (char_of (octal [0])) (char_of (octal [3, 1]))]]"

definition remove_illegal_chars :: "string \<Rightarrow> string" where
  "remove_illegal_chars s = py_strip (re_sub_classes illegal_pattern ''-'' s)"

text \<open>
  The characters the specification lists as illegal: \<open><>:"/\|?*'\<close> and the control
  bytes \<open>0x00\<close> to \<open>0x19\<close>.
\<close>

definition spec_illegal :: "char \<Rightarrow> bool" where
  "spec_illegal c =
     (c \<in> {CHR ''<'', CHR ''>'', CHR '':'', CHR 0x22, CHR ''/'', CHR 0x5C, CHR ''|'', CHR ''?'',
            CHR ''*'', CHR 0x27}
      \<or> codepoint c \<le> 0x19)"

section \<open>The world the program runs in\<close>

text \<open>
  Exceptions are values. \<open>RequestException\<close> stands for the whole class
  \<open>requests.RequestException\<close> (timeouts, connection and protocol errors); the other
  constructors are exceptions outside that class.
\<close>

datatype exn = RequestException | TypeError | KeyError | OSError | OtherError

text \<open>The lines the program prints, by the statement that prints them.\<close>

datatype message =
    PageHttpError int string
  | UnableToResolve
  | UrlListExported string
  | DownloadCompleted
  | ErrorProcessing string exn
  | Downloading string int int
  | FailedAfter string int exn
  | UnexpectedError string exn
  | DownloadHttpError int string
  | MaintenanceDetected string
  | SizeMismatch string
  | CdnListEmpty string
  | ExpectedD string
  | RequestBlocked string
  | CdnHttpError int string
  | ResolveHttpError int string
  | JsonDecodingError
  | CdnListHttpError int
  | ProcessingUrl string

text \<open>
  The effects of a run, in the order they happen: HTTP requests, sleeps, printed lines,
  and the writes to files (\<open>open(path, "wb")\<close> followed by the chunks written, and an
  append of one piece of text).
\<close>

datatype event =
    Request string
  | Sleep nat
  | Print message
  | WriteFile string string
  | AppendFile string string

text \<open>
  A parsed page as the program queries it: the elements of the document in document
  order, each with its tag name, the values of its \<open>class\<close> attribute, its other
  attributes and its text.
\<close>

record element =
  tag_name :: string
  classes :: "string list"
  attrs :: "string \<rightharpoonup> string"
  inner_text :: string

text \<open>
  The decoded JSON document as far as the resolver reads it: something that is not an
  object, or an object with its \<open>url\<close> and \<open>name\<close> members (strings when present).
\<close>

datatype api_document = NotObject | Object "string option" "string option"

text \<open>
  The \<open>content-length\<close> header as \<open>int(...)\<close> reads it: absent, present but not an
  integer (\<open>ValueError\<close>), or an integer.
\<close>

datatype length_header = NoHeader | NotInteger | Integer int

text \<open>
  A response. The body is given as each reader of it sees it: the document that
  \<open>BeautifulSoup\<close> parses, the value \<open>json.loads\<close> returns (\<open>None\<close> for a
  \<open>JSONDecodeError\<close>), and the chunks \<open>iter_content\<close> yields, after which the stream
  raises \<open>stream_error\<close> when there is one.
\<close>

record response =
  status_code :: int
  final_url :: string
  content_length :: length_header
  document :: "element list"
  json_body :: "api_document option"
  chunks :: "string list"
  stream_error :: "exn option"

datatype http_result = Raises exn | Responds response

text \<open>
  The environment: \<open>http n url\<close> is what the network answers to the \<open>n\<close>-th request of
  the run (counting from 0) when it asks for \<open>url\<close>; \<open>urlparse\<close> is the library's URL
  parser; \<open>unwritable path\<close> holds when \<open>open(path, "wb")\<close> raises \<open>OSError\<close>.
\<close>

record env =
  http :: "nat \<Rightarrow> string \<Rightarrow> http_result"
  urlparse :: "string \<Rightarrow> parsed_url"
  unwritable :: "string \<Rightarrow> bool"

text \<open>
  The state: the effects so far and the contents of the regular files. Directories are
  not tracked: \<open>os.makedirs\<close> leaves the state as it is.
\<close>

record world =
  events :: "event list"
  files :: "string \<rightharpoonup> string"

definition emit :: "event \<Rightarrow> world \<Rightarrow> world" where
  "emit e w = w\<lparr>events := events w @ [e]\<rparr>"

definition print :: "message \<Rightarrow> world \<Rightarrow> world" where
  "print m w = emit (Print m) w"

definition sleep :: "nat \<Rightarrow> world \<Rightarrow> world" where
  "sleep n w = emit (Sleep n) w"

fun is_request :: "event \<Rightarrow> bool" where
  "is_request (Request u) = True"
| "is_request e = False"

definition requests_of :: "event list \<Rightarrow> string list" where
  "requests_of es = concat (map (\<lambda>e. case e of Request u \<Rightarrow> [u] | _ \<Rightarrow> []) es)"

definition request_count :: "world \<Rightarrow> nat" where
  "request_count w = length (requests_of (events w))"

text \<open>\<open>session.get(url)\<close>.\<close>

definition session_get :: "env \<Rightarrow> string \<Rightarrow> world \<Rightarrow> http_result \<times> world" where
  "session_get E url w = (http E (request_count w) url, emit (Request url) w)"

definition write_file :: "string \<Rightarrow> string \<Rightarrow> world \<Rightarrow> world" where
  "write_file p content w = emit (WriteFile p content) (w\<lparr>files := (files w)(p \<mapsto> content)\<rparr>)"

definition append_file :: "string \<Rightarrow> string \<Rightarrow> world \<Rightarrow> world" where
  "append_file p s w =
     emit (AppendFile p s)
       (w\<lparr>files := (files w)(p \<mapsto> (case files w p of None \<Rightarrow> s | Some old \<Rightarrow> old @ s))\<rparr>)"

subsection \<open>The ledger and the export list\<close>

definition ledger_path :: "string \<Rightarrow> string" where
  "ledger_path download_path = path_join download_path ''already_downloaded.txt''"

definition list_path :: "string \<Rightarrow> string" where
  "list_path download_path = path_join download_path ''url_list.txt''"

definition newline :: string where
  "newline = [CHR 0x0A]"

definition get_and_prepare_download_path :: "string option \<Rightarrow> string \<Rightarrow> world \<Rightarrow> string \<times> world" where
  "get_and_prepare_download_path custom_path album_name w =
     (let base_path = (case custom_path of
                         None \<Rightarrow> ''downloads''
                       | Some p \<Rightarrow> if p \<noteq> [] then p else ''downloads'');
          joined = (if album_name \<noteq> [] then path_join base_path album_name else base_path);
          final_path = py_replace joined newline [];
          already_downloaded_path = path_join final_path ''already_downloaded.txt''
      in (final_path,
          (case files w already_downloaded_path of
             None \<Rightarrow> write_file already_downloaded_path [] w
           | Some old \<Rightarrow> w)))"

definition write_url_to_list :: "string \<Rightarrow> string \<Rightarrow> world \<Rightarrow> world" where
  "write_url_to_list item_url download_path w =
     append_file (list_path download_path) (item_url @ newline) w"

definition get_already_downloaded_url :: "string \<Rightarrow> world \<Rightarrow> string list" where
  "get_already_downloaded_url download_path w =
     (case files w (ledger_path download_path) of
        None \<Rightarrow> []
      | Some content \<Rightarrow> splitlines content)"

definition mark_as_downloaded :: "string \<Rightarrow> string \<Rightarrow> world \<Rightarrow> world" where
  "mark_as_downloaded item_url download_path w =
     append_file (ledger_path download_path) (item_url @ newline) w"

subsection \<open>get_cdn_file_url\<close>

text \<open>
  The loop over the hosts. The result is the exception that leaves the function, or
  the value returned: \<open>None\<close> or the URL that answered 200.
\<close>

definition url_to_test :: "string \<Rightarrow> string \<Rightarrow> string option \<Rightarrow> string option" where
  "url_to_test cdn gallery_url fname =
     (case fname of
        None \<Rightarrow>
          (let pos = py_find gallery_url ''/d/''
           in if pos = -1 then None
              else Some (''https://'' @ cdn @ ''/'' @ drop (nat (pos + 3)) gallery_url))
      | Some n \<Rightarrow> Some (''https://'' @ cdn @ ''/'' @ n))"

fun probe_hosts ::
  "env \<Rightarrow> string \<Rightarrow> string option \<Rightarrow> string list \<Rightarrow> world \<Rightarrow> (exn + string option) \<times> world" where
  "probe_hosts E gallery_url fname [] w = (Inr None, w)"
| "probe_hosts E gallery_url fname (cdn # rest) w =
     (case url_to_test cdn gallery_url fname of
        None \<Rightarrow> (Inr None, print (ExpectedD gallery_url) w)
      | Some u \<Rightarrow>
          (case session_get E u w of
             (Raises e, w1) \<Rightarrow>
               if e = RequestException then probe_hosts E gallery_url fname rest w1
               else (Inl e, w1)
           | (Responds r, w1) \<Rightarrow>
               if status_code r = 200 then (Inr (Some u), w1)
               else if status_code r = 404 then probe_hosts E gallery_url fname rest w1
               else if status_code r = 403 then (Inr None, print (RequestBlocked gallery_url) w1)
               else (Inr None, print (CdnHttpError (status_code r) gallery_url) w1)))"

definition get_cdn_file_url ::
  "env \<Rightarrow> string list option \<Rightarrow> string \<Rightarrow> string option \<Rightarrow> world \<Rightarrow> (exn + string option) \<times> world" where
  "get_cdn_file_url E cdn_list gallery_url fname w =
     (case cdn_list of
        None \<Rightarrow> (Inr None, print (CdnListEmpty gallery_url) w)
      | Some [] \<Rightarrow> (Inr None, print (CdnListEmpty gallery_url) w)
      | Some (cdn # rest) \<Rightarrow> probe_hosts E gallery_url fname (cdn # rest) w)"

section \<open>downloader.py: download and download_with_retries\<close>

definition maintenance_url :: string where
  "maintenance_url = ''https://bnkr.b-cdn.net/maintenance.mp4''"

definition parse_file_size :: "length_header \<Rightarrow> int" where
  "parse_file_size h = (case h of NoHeader \<Rightarrow> -1 | NotInteger \<Rightarrow> -1 | Integer n \<Rightarrow> n)"

text \<open>What the loop over \<open>iter_content\<close> writes: the chunks that are not empty.\<close>

definition written_body :: "response \<Rightarrow> string" where
  "written_body r = concat (filter (\<lambda>chunk. chunk \<noteq> []) (chunks r))"

text \<open>
  \<open>download\<close>. The result is the exception that leaves the function, or \<open>Inr ()\<close> when
  it returns. The progress bar is not modelled.
\<close>

definition download ::
  "env \<Rightarrow> string \<Rightarrow> string \<Rightarrow> bool \<Rightarrow> string option \<Rightarrow> world \<Rightarrow> (exn + unit) \<times> world" where
  "download E item_url download_path is_bunkr name_override w =
     (let url_info = get_url_data (urlparse E) item_url;
          fname = (case name_override of
                     None \<Rightarrow> file_name url_info
                   | Some n \<Rightarrow> if n \<noteq> [] then n else file_name url_info);
          final_path = path_join download_path fname
      in case session_get E item_url w of
           (Raises e, w1) \<Rightarrow> (Inl e, w1)
         | (Responds r, w1) \<Rightarrow>
             if status_code r \<noteq> 200
             then (Inr (), print (DownloadHttpError (status_code r) fname) w1)
             else if final_url r = maintenance_url
             then (Inr (), print (MaintenanceDetected fname) w1)
             else
               (let file_size = parse_file_size (content_length r)
                in if unwritable E final_path then (Inl OSError, w1)
                   else
                     (let w2 = write_file final_path (written_body r) w1
                      in case stream_error r of
                           Some e \<Rightarrow> (Inl e, w2)
                         | None \<Rightarrow>
                             if is_bunkr \<and> file_size > 0
                             then (case files w2 final_path of
                                     None \<Rightarrow> (Inl OSError, w2)
                                   | Some content \<Rightarrow>
                                       if int (length content) \<noteq> file_size
                                       then (Inr (), print (SizeMismatch fname) w2)
                                       else (Inr (), mark_as_downloaded item_url download_path w2))
                             else (Inr (), mark_as_downloaded item_url download_path w2))))"

record task =
  task_url :: string
  task_name :: "string option"
  task_is_bunkr :: bool
  task_retries :: int

text \<open>
  The body of \<open>for attempt in range(1, retries + 1)\<close>, over the attempts that are left.
  \<open>break\<close> returns without looking at the rest.
\<close>

fun attempts ::
  "env \<Rightarrow> string \<Rightarrow> int \<Rightarrow> bool \<Rightarrow> string option \<Rightarrow> string \<Rightarrow> int list \<Rightarrow> world \<Rightarrow> world" where
  "attempts E url retries is_bunkr fname download_path [] w = w"
| "attempts E url retries is_bunkr fname download_path (attempt # rest) w =
     (case download E url download_path is_bunkr fname (print (Downloading url attempt retries) w) of
        (Inr u, w1) \<Rightarrow> w1
      | (Inl e, w1) \<Rightarrow>
          if e = RequestException
          then (if attempt < retries
                then attempts E url retries is_bunkr fname download_path rest (sleep 2 w1)
                else attempts E url retries is_bunkr fname download_path rest
                       (print (FailedAfter url retries e) w1))
          else print (UnexpectedError url e) w1)"

definition download_with_retries :: "env \<Rightarrow> task \<Rightarrow> string \<Rightarrow> string list option \<Rightarrow> world \<Rightarrow> world" where
  "download_with_retries E t download_path cdn_list w =
     attempts E (task_url t) (task_retries t) (task_is_bunkr t) (task_name t) download_path
       [1..task_retries t] w"

section \<open>url_handler.py\<close>

datatype selector = AnyAttrs | ByClass string | ById string

definition element_matches :: "string \<Rightarrow> selector \<Rightarrow> element \<Rightarrow> bool" where
  "element_matches t sel el =
     (tag_name el = t \<and>
      (case sel of
         AnyAttrs \<Rightarrow> True
       | ByClass c \<Rightarrow> c \<in> set (classes el)
       | ById i \<Rightarrow> attrs el ''id'' = Some i))"

text \<open>
  \<open>soup.find_all(tag, attrs)\<close> and \<open>soup.find(tag, attrs)\<close>, in document order. The HTML
  engine is outside the program: a query with a class holds for an element that has the
  class among its classes, a query with an id for an element with that \<open>id\<close>, and the
  query \<open>soup.find(tag, None)\<close> is taken as the query by tag name alone.
\<close>

definition find_all :: "element list \<Rightarrow> string \<Rightarrow> selector \<Rightarrow> element list" where
  "find_all soup t sel = filter (element_matches t sel) soup"

definition soup_find :: "element list \<Rightarrow> string \<Rightarrow> selector \<Rightarrow> element option" where
  "soup_find soup t sel = (case find_all soup t sel of [] \<Rightarrow> None | el # rest \<Rightarrow> Some el)"

record item =
  i_url :: string
  i_size :: int
  i_name :: "string option"

text \<open>The loop over \<open>[("source", "src"), ("media-player", "src"), ("img", "src")]\<close>.\<close>

fun try_elements :: "element list \<Rightarrow> (string \<times> string) list \<Rightarrow> string option" where
  "try_elements soup [] = None"
| "try_elements soup ((t, attr) # rest) =
     (case soup_find soup t (if t = ''img'' then ByClass ''max-h-full'' else AnyAttrs) of
        None \<Rightarrow> try_elements soup rest
      | Some el \<Rightarrow>
          (case attrs el attr of
             None \<Rightarrow> try_elements soup rest
           | Some v \<Rightarrow> if v \<noteq> [] then Some v else try_elements soup rest))"

definition media_tags :: "(string \<times> string) list" where
  "media_tags = [(''source'', ''src''), (''media-player'', ''src''), (''img'', ''src'')]"

definition bunkr_get_real_download_url ::
  "env \<Rightarrow> string list option \<Rightarrow> string \<Rightarrow> world \<Rightarrow> (exn + item option) \<times> world" where
  "bunkr_get_real_download_url E cdn_list url0 w =
     (let url = (if \<not> startswith url0 ''https'' then ''https://bunkr.sk'' @ url0 else url0)
      in case session_get E url w of
           (Raises e, w1) \<Rightarrow> (Inl e, w1)
         | (Responds r, w1) \<Rightarrow>
             if status_code r \<noteq> 200
             then (Inr None, print (ResolveHttpError (status_code r) url) w1)
             else
               (case try_elements (document r) media_tags of
                  Some v \<Rightarrow> (Inr (Some \<lparr>i_url = v, i_size = -1, i_name = None\<rparr>), w1)
                | None \<Rightarrow>
                    (case soup_find (document r) ''h1'' (ByClass ''truncate'') of
                       None \<Rightarrow> (Inr None, w1)
                     | Some link_dom \<Rightarrow>
                         (case get_cdn_file_url E cdn_list url None w1 of
                            (Inl e, w2) \<Rightarrow> (Inl e, w2)
                          | (Inr None, w2) \<Rightarrow> (Inr None, w2)
                          | (Inr (Some resolved_url), w2) \<Rightarrow>
                              if resolved_url \<noteq> []
                              then (Inr (Some \<lparr>i_url = resolved_url, i_size = -1,
                                               i_name = None\<rparr>), w2)
                              else (Inr None, w2)))))"

definition cyberdrop_get_real_download_url ::
  "env \<Rightarrow> string list option \<Rightarrow> string \<Rightarrow> world \<Rightarrow> (exn + item option) \<times> world" where
  "cyberdrop_get_real_download_url E cdn_list url w =
     (let api_url = py_replace url ''/f/'' ''/api/f/''
      in case session_get E api_url w of
           (Raises e, w1) \<Rightarrow> (Inl e, w1)
         | (Responds r, w1) \<Rightarrow>
             if status_code r \<noteq> 200
             then (Inr None, print (ResolveHttpError (status_code r) url) w1)
             else
               (case json_body r of
                  None \<Rightarrow> (Inr None, print JsonDecodingError w1)
                | Some NotObject \<Rightarrow> (Inl TypeError, w1)
                | Some (Object None n) \<Rightarrow> (Inl KeyError, w1)
                | Some (Object (Some u) n) \<Rightarrow>
                    (Inr (Some \<lparr>i_url = u, i_size = -1, i_name = n\<rparr>), w1)))"

datatype handler = BunkrURLHandler | CyberdropURLHandler

definition get_url_handler :: "bool \<Rightarrow> handler" where
  "get_url_handler is_bunkr = (if is_bunkr then BunkrURLHandler else CyberdropURLHandler)"

fun get_real_download_url ::
  "handler \<Rightarrow> env \<Rightarrow> string list option \<Rightarrow> string \<Rightarrow> world \<Rightarrow> (exn + item option) \<times> world" where
  "get_real_download_url BunkrURLHandler = bunkr_get_real_download_url"
| "get_real_download_url CyberdropURLHandler = cyberdrop_get_real_download_url"

section \<open>network.py: get_cdn_list\<close>

fun enumerate_from :: "int \<Rightarrow> 'a list \<Rightarrow> (int \<times> 'a) list" where
  "enumerate_from start [] = []"
| "enumerate_from start (x # xs) = (start, x) # enumerate_from (start + 1) xs"

definition status_url :: string where
  "status_url = ''https://status.bunkr.ru/''"

definition cdn_names :: "element list \<Rightarrow> string list" where
  "cdn_names cdn_elements =
     concat (map (\<lambda>(i, cdn). if i > 4 then [py_lower (inner_text cdn) @ ''.bunkr.ru''] else [])
                 (enumerate_from 1 (drop 1 cdn_elements)))"

definition get_cdn_list :: "env \<Rightarrow> world \<Rightarrow> (exn + string list option) \<times> world" where
  "get_cdn_list E w =
     (case session_get E status_url w of
        (Raises e, w1) \<Rightarrow> (Inl e, w1)
      | (Responds r, w1) \<Rightarrow>
          if status_code r \<noteq> 200
          then (Inr None, print (CdnListHttpError (status_code r)) w1)
          else
            (let cdn_elements = find_all (document r) ''p'' (ByClass ''flex-1'')
             in (Inr (Some (if cdn_elements \<noteq> [] then cdn_names cdn_elements else [])), w1)))"

section \<open>downloader.py: process_url\<close>

definition album_name_of :: "element option \<Rightarrow> string" where
  "album_name_of album_name_elem =
     (case album_name_elem of
        None \<Rightarrow> ''unknown_album''
      | Some el \<Rightarrow> remove_illegal_chars (inner_text el))"

text \<open>\<open>a or b\<close> on two results of \<open>soup.find\<close>: a tag that was found is always true.\<close>

definition or_else :: "element option \<Rightarrow> element option \<Rightarrow> element option" where
  "or_else a b = (case a of None \<Rightarrow> b | Some el \<Rightarrow> Some el)"

text \<open>
  The loops that append \<open>{"url": box["href"]}\<close>: the \<open>url\<close> entries of the items, or
  \<open>KeyError\<close> at the first anchor without an \<open>href\<close>.
\<close>

fun collect_hrefs :: "string \<Rightarrow> element list \<Rightarrow> exn + string list" where
  "collect_hrefs pre [] = Inr []"
| "collect_hrefs pre (box # boxes) =
     (case attrs box ''href'' of
        None \<Rightarrow> Inl KeyError
      | Some href \<Rightarrow>
          (case collect_hrefs pre boxes of
             Inl e \<Rightarrow> Inl e
           | Inr urls \<Rightarrow> Inr ((pre @ href) # urls)))"

text \<open>
  The first part of \<open>process_url\<close>, after the page is fetched: whether the page is a
  direct link, the album name, and the \<open>url\<close> entries of the items.
\<close>

definition page_items ::
  "env \<Rightarrow> string list option \<Rightarrow> string \<Rightarrow> element list \<Rightarrow> bool \<Rightarrow> world
     \<Rightarrow> (exn + bool \<times> string \<times> string list) \<times> world" where
  "page_items E cdn_list url soup is_bunkr w =
     (if is_bunkr
      then
        (let direct_link =
               (or_else (soup_find soup ''span'' (ByClass ''ic-videos''))
                        (soup_find soup ''div'' (ByClass ''lightgallery'')) \<noteq> None)
         in if direct_link
            then
              (let album_name =
                     album_name_of (or_else (soup_find soup ''h1'' (ByClass ''text-[20px]''))
                                            (soup_find soup ''h1'' (ByClass ''truncate'')))
               in case get_real_download_url (get_url_handler is_bunkr) E cdn_list url w of
                    (Inl e, w1) \<Rightarrow> (Inl e, w1)
                  | (Inr None, w1) \<Rightarrow> (Inl TypeError, w1)
                  | (Inr (Some it), w1) \<Rightarrow> (Inr (direct_link, album_name, [i_url it]), w1))
            else
              (let album_name = album_name_of (soup_find soup ''h1'' (ByClass ''truncate''))
               in case collect_hrefs [] (find_all soup ''a'' (ByClass ''after:absolute'')) of
                    Inl e \<Rightarrow> (Inl e, w)
                  | Inr urls \<Rightarrow> (Inr (direct_link, album_name, urls), w)))
      else
        (let album_name = album_name_of (soup_find soup ''h1'' (ById ''title''))
         in case collect_hrefs ''https://cyberdrop.me'' (find_all soup ''a'' (ByClass ''image'')) of
              Inl e \<Rightarrow> (Inl e, w)
            | Inr urls \<Rightarrow> (Inr (False, album_name, urls), w)))"

definition extensions_list_of :: "string \<Rightarrow> string list" where
  "extensions_list_of extensions =
     (if extensions \<noteq> [] then map py_strip (split_char CHR '','' extensions) else [])"

text \<open>The condition under which an item is exported or enqueued.\<close>

definition wanted :: "(string \<Rightarrow> parsed_url) \<Rightarrow> string list \<Rightarrow> string list \<Rightarrow> string \<Rightarrow> bool" where
  "wanted up extensions_list already_downloaded u =
     ((extensions_list = [] \<or> extension (get_url_data up u) \<in> set extensions_list)
      \<and> u \<notin> set already_downloaded)"

text \<open>The local variables of \<open>process_url\<close> that the loop over the items reads.\<close>

record batch =
  b_handler :: handler
  b_cdn_list :: "string list option"
  b_direct_link :: bool
  b_extensions_list :: "string list"
  b_already_downloaded :: "string list"
  b_only_export :: bool
  b_is_bunkr :: bool
  b_retries :: int
  b_download_path :: string

text \<open>
  The first part of the body of \<open>for item in items\<close>: the \<open>url\<close> and the \<open>name\<close> of the
  item after resolution, \<open>None\<close> when the loop goes on to the next item, or the
  exception of the resolver.
\<close>

definition resolve_item ::
  "env \<Rightarrow> batch \<Rightarrow> string \<Rightarrow> world \<Rightarrow> (exn + (string \<times> string option) option) \<times> world" where
  "resolve_item E b u w =
     (if \<not> b_direct_link b
      then (case get_real_download_url (b_handler b) E (b_cdn_list b) u w of
              (Inl e, w1) \<Rightarrow> (Inl e, w1)
            | (Inr None, w1) \<Rightarrow> (Inr None, print UnableToResolve w1)
            | (Inr (Some real_item), w1) \<Rightarrow>
                (Inr (Some (i_url real_item, i_name real_item)), w1))
      else (Inr (Some (u, None)), w))"

text \<open>
  The loop \<open>for item in items\<close>: the download tasks collected so far are threaded
  through; an exception of the resolver leaves the loop.
\<close>

fun process_items ::
  "env \<Rightarrow> batch \<Rightarrow> string list \<Rightarrow> task list \<Rightarrow> world \<Rightarrow> (exn + task list) \<times> world" where
  "process_items E b [] download_tasks w = (Inr download_tasks, w)"
| "process_items E b (u # items) download_tasks w =
     (case resolve_item E b u w of
        (Inl e, w1) \<Rightarrow> (Inl e, w1)
      | (Inr None, w1) \<Rightarrow> process_items E b items download_tasks w1
      | (Inr (Some (resolved, name)), w1) \<Rightarrow>
          if wanted (urlparse E) (b_extensions_list b) (b_already_downloaded b) resolved
          then (if b_only_export b
                then process_items E b items download_tasks
                       (write_url_to_list resolved (b_download_path b) w1)
                else process_items E b items
                       (download_tasks @
                          [\<lparr>task_url = resolved, task_name = name,
                            task_is_bunkr = b_is_bunkr b, task_retries = b_retries b\<rparr>])
                       w1)
          else process_items E b items download_tasks w1)"

text \<open>
  The worker pool. Each task runs \<open>download_with_retries\<close>, which returns without an
  exception; the model runs the tasks one after the other in the order they were
  submitted, so the interleavings of the threads are not modelled.
\<close>

fun run_tasks :: "env \<Rightarrow> string \<Rightarrow> string list option \<Rightarrow> task list \<Rightarrow> world \<Rightarrow> world" where
  "run_tasks E download_path cdn_list [] w = w"
| "run_tasks E download_path cdn_list (t # ts) w =
     run_tasks E download_path cdn_list ts (download_with_retries E t download_path cdn_list w)"

definition process_url ::
  "env \<Rightarrow> string list option \<Rightarrow> string \<Rightarrow> int \<Rightarrow> string \<Rightarrow> bool \<Rightarrow> string option \<Rightarrow> world
     \<Rightarrow> (exn + unit) \<times> world" where
  "process_url E cdn_list url retries extensions only_export custom_path w =
     (case session_get E url w of
        (Raises e, w1) \<Rightarrow> (Inl e, w1)
      | (Responds r, w1) \<Rightarrow>
          if status_code r \<noteq> 200
          then (Inr (), print (PageHttpError (status_code r) url) w1)
          else
            (let soup = document r;
                 title_text = (case soup_find soup ''title'' AnyAttrs of
                                 None \<Rightarrow> []
                               | Some t \<Rightarrow> inner_text t);
                 is_bunkr = contains title_text ''| Bunkr''
             in case page_items E cdn_list url soup is_bunkr w1 of
                  (Inl e, w2) \<Rightarrow> (Inl e, w2)
                | (Inr (direct_link, album_name, items), w2) \<Rightarrow>
                    (case get_and_prepare_download_path custom_path album_name w2 of
                       (download_path, w3) \<Rightarrow>
                         (let b = \<lparr>b_handler = get_url_handler is_bunkr,
                                   b_cdn_list = cdn_list,
                                   b_direct_link = direct_link,
                                   b_extensions_list = extensions_list_of extensions,
                                   b_already_downloaded = get_already_downloaded_url download_path w3,
                                   b_only_export = only_export,
                                   b_is_bunkr = is_bunkr,
                                   b_retries = retries,
                                   b_download_path = download_path\<rparr>
                          in case process_items E b items [] w3 of
                               (Inl e, w4) \<Rightarrow> (Inl e, w4)
                             | (Inr download_tasks, w4) \<Rightarrow>
                                 if only_export
                                 then (Inr (), print (UrlListExported (list_path download_path)) w4)
                                 else (Inr (),
                                       print DownloadCompleted
                                         (run_tasks E download_path cdn_list download_tasks w4))))))"

text \<open>
  The loop of \<open>main\<close> over the URLs of a file, each announced by a printed line: an
  exception that leaves \<open>process_url\<close> leaves \<open>main\<close>, and the URLs after it are not
  processed.
\<close>

fun process_urls ::
  "env \<Rightarrow> string list option \<Rightarrow> int \<Rightarrow> string \<Rightarrow> bool \<Rightarrow> string option \<Rightarrow> string list \<Rightarrow> world
     \<Rightarrow> (exn + unit) \<times> world" where
  "process_urls E cdn_list retries extensions only_export custom_path [] w = (Inr (), w)"
| "process_urls E cdn_list retries extensions only_export custom_path (url # urls) w =
     (case process_url E cdn_list url retries extensions only_export custom_path
             (print (ProcessingUrl url) w) of
        (Inl e, w1) \<Rightarrow> (Inl e, w1)
      | (Inr u, w1) \<Rightarrow> process_urls E cdn_list retries extensions only_export custom_path urls w1)"

section \<open>Vocabulary of the properties\<close>

text \<open>
  The URL the probe tries for a host: \<open>https://{host}/{fileName}\<close> when a file name is
  given, and otherwise \<open>https://{host}/\<close> followed by what comes after the first \<open>/d/\<close>
  of the gallery URL.
\<close>

definition candidate :: "string \<Rightarrow> string option \<Rightarrow> string \<Rightarrow> string" where
  "candidate gallery_url fname cdn =
     ''https://'' @ cdn @ ''/'' @
       (case fname of
          Some n \<Rightarrow> n
        | None \<Rightarrow> drop (nat (py_find gallery_url ''/d/'' + 3)) gallery_url)"

text \<open>An answer after which the probe goes to the next host: a 404 or a network failure.\<close>

fun moves_on :: "http_result \<Rightarrow> bool" where
  "moves_on (Raises e) = (e = RequestException)"
| "moves_on (Responds r) = (status_code r = 404)"

text \<open>The world after the requests \<open>urls\<close>, in this order, and nothing else.\<close>

definition requested :: "string list \<Rightarrow> world \<Rightarrow> world" where
  "requested urls w = w\<lparr>events := events w @ map Request urls\<rparr>"

text \<open>The effects that a step from \<open>w\<close> to \<open>w'\<close> added.\<close>

definition new_events :: "world \<Rightarrow> world \<Rightarrow> event list" where
  "new_events w w' = drop (length (events w)) (events w')"

text \<open>The name and the path under which \<open>download\<close> saves a file.\<close>

definition saved_name :: "env \<Rightarrow> string \<Rightarrow> string option \<Rightarrow> string" where
  "saved_name E item_url name_override =
     (case name_override of
        None \<Rightarrow> file_name (get_url_data (urlparse E) item_url)
      | Some n \<Rightarrow> if n \<noteq> [] then n else file_name (get_url_data (urlparse E) item_url))"

definition saved_path :: "env \<Rightarrow> string \<Rightarrow> string \<Rightarrow> string option \<Rightarrow> string" where
  "saved_path E download_path item_url name_override =
     path_join download_path (saved_name E item_url name_override)"

text \<open>The durations of the sleeps, and the texts appended to the ledger, among some effects.\<close>

definition sleeps :: "event list \<Rightarrow> nat list" where
  "sleeps es = concat (map (\<lambda>e. case e of Sleep n \<Rightarrow> [n] | _ \<Rightarrow> []) es)"

definition ledger_appends :: "string \<Rightarrow> event list \<Rightarrow> string list" where
  "ledger_appends download_path es =
     concat (map (\<lambda>e. case e of
                         AppendFile p s \<Rightarrow> if p = ledger_path download_path then [s] else []
                       | _ \<Rightarrow> []) es)"




text \<open>The appends to files among some effects: the path and the text of each.\<close>

definition appends :: "event list \<Rightarrow> (string \<times> string) list" where
  "appends es = concat (map (\<lambda>e. case e of AppendFile p s \<Rightarrow> [(p, s)] | _ \<Rightarrow> []) es)"


section \<open>Concrete runs\<close>

text \<open>The values the concrete runs below are built from.\<close>

definition empty_world :: world where
  "empty_world = \<lparr>events = [], files = Map.empty\<rparr>"

definition ok_response :: response where
  "ok_response =
     \<lparr>status_code = 200, final_url = [], content_length = NoHeader, document = [],
      json_body = None, chunks = [], stream_error = None\<rparr>"

definition status_response :: "int \<Rightarrow> response" where
  "status_response code = ok_response\<lparr>status_code := code\<rparr>"

definition page_response :: "element list \<Rightarrow> response" where
  "page_response els = ok_response\<lparr>document := els\<rparr>"

definition el :: "string \<Rightarrow> string list \<Rightarrow> (string \<times> string) list \<Rightarrow> string \<Rightarrow> element" where
  "el t cs as txt = \<lparr>tag_name = t, classes = cs, attrs = map_of as, inner_text = txt\<rparr>"

text \<open>An environment whose network gives the answers of a list, request after request.\<close>

definition scripted :: "http_result list \<Rightarrow> env" where
  "scripted answers =
     \<lparr>http = (\<lambda>n u. if n < length answers then answers ! n else Raises RequestException),
      urlparse = urlparse_generic,
      unwritable = (\<lambda>p. False)\<rparr>"

definition status_page :: "element list" where
  "status_page =
     [el ''p'' [''flex-1''] [] ''Overview'',
      el ''p'' [''flex-1''] [] ''Website'',
      el ''p'' [''flex-1''] [] ''API'',
      el ''p'' [''flex-1''] [] ''Dashboard'',
      el ''p'' [''flex-1''] [] ''CDN-12'',
      el ''p'' [''flex-1''] [] ''CDN-8'']"

definition idle_task :: task where
  "idle_task =
     \<lparr>task_url = ''https://cdn-8.bunkr.ru/a.jpg'', task_name = None, task_is_bunkr = True,
      task_retries = 0\<rparr>"

definition clip_page :: string where
  "clip_page = ''https://bunkr.sk/d/clip.mp4''"

definition three_hosts :: "string list" where
  "three_hosts = [''cdn-1.bunkr.ru'', ''cdn-2.bunkr.ru'', ''cdn-3.bunkr.ru'']"

definition file_url :: string where
  "file_url = ''https://cdn-8.bunkr.ru/a.jpg''"

definition short_response :: response where
  "short_response =
     ok_response\<lparr>content_length := Integer 1000, chunks := [replicate 900 CHR ''x'']\<rparr>"

definition full_response :: response where
  "full_response =
     ok_response\<lparr>content_length := Integer 1000, chunks := [replicate 1000 CHR ''x'']\<rparr>"










text \<open>
  A bunkr direct-link page of a file that is no media: it has the lightbox container, and
  neither a \<open><source>\<close>, a media player or a styled image, nor a truncated heading.
\<close>

definition archive_url :: string where
  "archive_url = ''https://bunkr.sk/f/archive''"

definition archive_page :: "element list" where
  "archive_page =
     [el ''title'' [] [] ''archive.zip | Bunkr'',
      el ''div'' [''lightgallery''] [] [],
      el ''h1'' [''text-[20px]''] [] ''archive.zip'']"

text \<open>A bunkr gallery page whose one item is that page.\<close>

definition album_url :: string where
  "album_url = ''https://bunkr.sk/a/album''"

definition album_page :: "element list" where
  "album_page =
     [el ''title'' [] [] ''Album | Bunkr'',
      el ''h1'' [''truncate''] [] ''Album'',
      el ''a'' [''after:absolute''] [(''href'', ''/f/archive'')] []]"

definition archive_env :: env where
  "archive_env = scripted [Responds (page_response archive_page), Responds (page_response archive_page)]"

definition album_env :: env where
  "album_env = scripted [Responds (page_response album_page), Responds (page_response archive_page)]"

text \<open>A cyberdrop album with one item, whose API answers an object without \<open>url\<close>.\<close>

definition cyber_album_url :: string where
  "cyber_album_url = ''https://cyberdrop.me/a/album''"

definition cyber_album_page :: "element list" where
  "cyber_album_page =
     [el ''title'' [] [] ''Album - CyberDrop'',
      el ''h1'' [] [(''id'', ''title'')] ''Album'',
      el ''a'' [''image''] [(''href'', ''/f/abc'')] []]"

definition cyber_env :: env where
  "cyber_env =
     scripted [Responds (page_response cyber_album_page),
               Responds (ok_response\<lparr>json_body := Some (Object None None)\<rparr>)]"

section \<open>Sanitising names\<close>

lemma class_matches_illegal:
  "list_ex (\<lambda>cls. class_matches cls c) illegal_pattern = spec_illegal c"
  by (auto simp: illegal_pattern_def class_matches_def spec_illegal_def octal_def codepoint_def)

lemma re_sub_single:
  "re_sub_classes alts [r] s = map (\<lambda>c. if list_ex (\<lambda>cls. class_matches cls c) alts then r else c) s"
  by (induction s) (auto simp: re_sub_classes_def)

text \<open>
  C8. For every input string, \<open>remove_illegal_chars\<close> replaces every character among
  \<open><>:"/\|?*'\<close> and every control byte \<open>0x00\<close> to \<open>0x19\<close> with \<open>-\<close> and leaves every
  other character as it is, then trims the surrounding whitespace; the album title
  \<open>My/Album:Name\<close> becomes \<open>My-Album-Name\<close>.
\<close>

theorem remove_illegal_chars_spec:
  "remove_illegal_chars s = py_strip (map (\<lambda>c. if spec_illegal c then CHR ''-'' else c) s)
   \<and> remove_illegal_chars ''My/Album:Name'' = ''My-Album-Name''"
proof
  show "remove_illegal_chars s = py_strip (map (\<lambda>c. if spec_illegal c then CHR ''-'' else c) s)"
    by (simp add: remove_illegal_chars_def re_sub_single class_matches_illegal)
  show "remove_illegal_chars ''My/Album:Name'' = ''My-Album-Name''"
    by (simp add: remove_illegal_chars_def re_sub_single class_matches_illegal
        spec_illegal_def py_strip_def is_space_def codepoint_def)
qed

section \<open>File names and extensions\<close>










section \<open>The CDN host list\<close>

lemma enumerate_keep:
  "5 \<le> j \<Longrightarrow>
   concat (map (\<lambda>(i, cdn). if i > 4 then [f cdn] else []) (enumerate_from j xs)) = map f xs"
  by (induction xs arbitrary: j) auto

lemma enumerate_skip:
  "k \<le> 5 \<Longrightarrow>
   concat (map (\<lambda>(i, cdn). if i > 4 then [f cdn] else []) (enumerate_from k xs))
     = map f (drop (nat (5 - k)) xs)"
proof (induction xs arbitrary: k)
  case Nil
  then show ?case by simp
next
  case (Cons x xs)
  show ?case
  proof (cases "k = 5")
    case True
    then show ?thesis using enumerate_keep[of 6 f xs] by simp
  next
    case False
    then have k: "k + 1 \<le> 5" using Cons.prems by simp
    have "nat (5 - k) = Suc (nat (5 - (k + 1)))" using k by simp
    then show ?thesis using Cons.IH[OF k] k by simp
  qed
qed

lemma cdn_names_drop:
  "cdn_names xs = map (\<lambda>cdn. py_lower (inner_text cdn) @ ''.bunkr.ru'') (drop 5 xs)"
  using enumerate_skip[of 1 "\<lambda>cdn. py_lower (inner_text cdn) @ ''.bunkr.ru''" "drop 1 xs"]
  by (simp add: cdn_names_def)

lemma lower_cdn_names: "py_lower ''CDN-12'' = ''cdn-12''" "py_lower ''CDN-8'' = ''cdn-8''"
  by code_simp+

text \<open>
  C7 (amended). When the status page is fetched with status 200, \<open>get_cdn_list\<close> skips
  the first five list entries and, for each entry after them in order, appends
  \<open>.bunkr.ru\<close> to the lowercased text of the entry; a fetch with another status yields
  no list.
\<close>

theorem get_cdn_list_skips_five:
  "(http E (request_count w) status_url = Responds r \<and> status_code r = 200 \<longrightarrow>
      get_cdn_list E w =
        (Inr (Some (map (\<lambda>cdn. py_lower (inner_text cdn) @ ''.bunkr.ru'')
                        (drop 5 (find_all (document r) ''p'' (ByClass ''flex-1''))))),
         emit (Request status_url) w))
   \<and> (http E (request_count w) status_url = Responds r \<and> status_code r \<noteq> 200 \<longrightarrow>
        get_cdn_list E w =
          (Inr None, print (CdnListHttpError (status_code r)) (emit (Request status_url) w)))"
  by (simp add: get_cdn_list_def session_get_def cdn_names_drop Let_def)

theorem get_cdn_list_skips_five_witness:
  "http (scripted [Responds (page_response status_page)]) (request_count empty_world) status_url
     = Responds (page_response status_page)
   \<and> status_code (page_response status_page) = 200
   \<and> fst (get_cdn_list (scripted [Responds (page_response status_page)]) empty_world)
       = Inr (Some [''cdn-8.bunkr.ru''])
   \<and> http (scripted [Responds (status_response 503)]) (request_count empty_world) status_url
       = Responds (status_response 503)
   \<and> status_code (status_response 503) \<noteq> 200
   \<and> fst (get_cdn_list (scripted [Responds (status_response 503)]) empty_world) = Inr None"
  using get_cdn_list_skips_five[of "scripted [Responds (page_response status_page)]" empty_world
          "page_response status_page"]
        get_cdn_list_skips_five[of "scripted [Responds (status_response 503)]" empty_world
          "status_response 503"]
  by (simp add: scripted_def empty_world_def request_count_def requests_of_def
      page_response_def status_response_def ok_response_def status_page_def el_def
      find_all_def element_matches_def lower_cdn_names)

text \<open>
  C7 as stated fails: on a status page with six entries the code keeps the sixth only,
  where skipping four entries would keep the fifth and the sixth.
\<close>

theorem skip_four_counterexample:
  "fst (get_cdn_list (scripted [Responds (page_response status_page)]) empty_world)
     = Inr (Some [''cdn-8.bunkr.ru''])
   \<and> map (\<lambda>cdn. py_lower (inner_text cdn) @ ''.bunkr.ru'')
         (drop 4 (find_all status_page ''p'' (ByClass ''flex-1'')))
       = [''cdn-12.bunkr.ru'', ''cdn-8.bunkr.ru'']"
  by (simp add: get_cdn_list_def session_get_def cdn_names_def scripted_def empty_world_def
      request_count_def requests_of_def page_response_def ok_response_def status_page_def
      el_def find_all_def element_matches_def lower_cdn_names emit_def)

section \<open>The retry loop\<close>

text \<open>
  C10. For every task whose retry count is at most 0, \<open>download_with_retries\<close> makes no
  attempt and returns with the world as it was: no request is issued, no file is
  created or changed, and nothing is appended to the ledger.
\<close>

theorem no_attempt_without_retries:
  "task_retries t \<le> 0 \<Longrightarrow> download_with_retries E t download_path cdn_list w = w"
  by (simp add: download_with_retries_def)

theorem no_attempt_without_retries_witness:
  "task_retries idle_task \<le> 0
   \<and> download_with_retries (scripted []) idle_task ''downloads/album'' None empty_world
       = empty_world"
proof -
  have h: "task_retries idle_task \<le> 0" by (simp add: idle_task_def)
  show ?thesis using h no_attempt_without_retries[OF h] by simp
qed

section \<open>The CDN probe\<close>

lemma request_count_emit_request [simp]:
  "request_count (emit (Request u) w) = Suc (request_count w)"
  by (simp add: request_count_def requests_of_def emit_def)

lemma request_count_print [simp]: "request_count (print m w) = request_count w"
  by (simp add: request_count_def requests_of_def emit_def print_def)

lemma request_count_sleep [simp]: "request_count (sleep n w) = request_count w"
  by (simp add: request_count_def requests_of_def emit_def sleep_def)

lemma requested_Nil [simp]: "requested [] w = w"
  by (simp add: requested_def)

lemma requested_Cons: "requested (u # us) w = requested us (emit (Request u) w)"
  by (simp add: requested_def emit_def)

lemma requested_snoc: "requested (us @ [u]) w = emit (Request u) (requested us w)"
  by (simp add: requested_def emit_def)

lemma request_count_requested [simp]:
  "request_count (requested us w) = request_count w + length us"
  by (induction us arbitrary: w) (simp_all add: requested_Cons)

lemma url_to_test_candidate:
  "fname \<noteq> None \<or> py_find g ''/d/'' \<noteq> -1 \<Longrightarrow>
   url_to_test cdn g fname = Some (candidate g fname cdn)"
  by (auto simp: url_to_test_def candidate_def Let_def split: option.splits)

lemma probe_hosts_skip:
  assumes target: "fname \<noteq> None \<or> py_find g ''/d/'' \<noteq> -1"
  shows "(\<forall>i < length pre. moves_on (http E (request_count w + i) (candidate g fname (pre ! i))))
         \<Longrightarrow> probe_hosts E g fname (pre @ rest) w
             = probe_hosts E g fname rest (requested (map (candidate g fname) pre) w)"
proof (induction pre arbitrary: w)
  case Nil
  then show ?case by simp
next
  case (Cons h pre)
  from Cons.prems have first: "moves_on (http E (request_count w) (candidate g fname h))"
    by force
  have later: "\<forall>i < length pre.
      moves_on (http E (request_count (emit (Request (candidate g fname h)) w) + i)
                 (candidate g fname (pre ! i)))"
  proof (intro allI impI)
    fix i assume "i < length pre"
    then have "Suc i < length (h # pre)" by simp
    from Cons.prems[rule_format, OF this] show
      "moves_on (http E (request_count (emit (Request (candidate g fname h)) w) + i)
                 (candidate g fname (pre ! i)))" by simp
  qed
  have step: "probe_hosts E g fname (h # pre @ rest) w
        = probe_hosts E g fname (pre @ rest) (emit (Request (candidate g fname h)) w)"
    using first url_to_test_candidate[OF target, of h]
    by (cases "http E (request_count w) (candidate g fname h)")
       (simp_all add: session_get_def)
  show ?case using step Cons.IH[OF later] by (simp add: requested_Cons)
qed

lemma probe_hosts_answer:
  assumes target: "fname \<noteq> None \<or> py_find g ''/d/'' \<noteq> -1"
    and ans: "http E (request_count w) (candidate g fname h) = Responds r"
  shows "probe_hosts E g fname (h # post) w =
          (if status_code r = 200 then (Inr (Some (candidate g fname h)), requested [candidate g fname h] w)
           else if status_code r = 404
             then probe_hosts E g fname post (requested [candidate g fname h] w)
           else if status_code r = 403
             then (Inr None, print (RequestBlocked g) (requested [candidate g fname h] w))
           else (Inr None, print (CdnHttpError (status_code r) g) (requested [candidate g fname h] w)))"
  using ans url_to_test_candidate[OF target, of h]
  by (simp add: session_get_def requested_Cons)

lemma py_find_first:
  "(\<forall>k < length a. \<not> startswith (drop k (a @ sub @ b)) sub) \<Longrightarrow>
   py_find (a @ sub @ b) sub = int (length a)"
proof (induction a)
  case Nil
  have "startswith (sub @ b) sub" by (simp add: startswith_def)
  then show ?case by (cases "sub @ b") simp_all
next
  case (Cons x a)
  from Cons.prems have "\<not> startswith (drop 0 ((x # a) @ sub @ b)) sub" by blast
  then have no: "\<not> startswith (x # a @ sub @ b) sub" by simp
  have "\<forall>k < length a. \<not> startswith (drop k (a @ sub @ b)) sub"
  proof (intro allI impI)
    fix k assume "k < length a"
    then have "Suc k < length (x # a)" by simp
    from Cons.prems[rule_format, OF this] show "\<not> startswith (drop k (a @ sub @ b)) sub" by simp
  qed
  from Cons.IH[OF this] no show ?case by (simp add: Let_def)
qed


lemma clip_candidate: "candidate clip_page None h = ''https://'' @ h @ ''/clip.mp4''"
  by (simp add: candidate_def clip_page_def startswith_def)

lemma clip_has_d: "py_find clip_page ''/d/'' \<noteq> -1"
  by (simp add: clip_page_def startswith_def)

text \<open>
  C3. The CDN probe tries the hosts in list order, building \<open>https://{host}/{fileName}\<close>
  when a file name is given and otherwise \<open>https://{host}/\<close> followed by what comes after
  \<open>/d/\<close>. With an absent or empty host list, or without \<open>/d/\<close> when no file name is given,
  it returns nothing and requests nothing. When the hosts \<open>pre\<close> all answer 404 or fail
  at the network level and the next host \<open>h\<close> answers: on 200 it returns the URL built
  for \<open>h\<close>, on 404 it goes on with the hosts after \<open>h\<close>, on 403 and on any other status
  it returns nothing; in each case the requests made are those for \<open>pre\<close> and \<open>h\<close>, in
  order, and none for a later host. When every host answers 404 or fails at the network
  level it returns nothing.
\<close>

theorem cdn_probe_order:
  "get_cdn_file_url E None g fname w = (Inr None, print (CdnListEmpty g) w)
   \<and> get_cdn_file_url E (Some []) g fname w = (Inr None, print (CdnListEmpty g) w)
   \<and> (py_find g ''/d/'' = -1 \<longrightarrow>
        get_cdn_file_url E (Some (h # post)) g None w = (Inr None, print (ExpectedD g) w))
   \<and> ((\<forall>k < length a. \<not> startswith (drop k (a @ ''/d/'' @ b)) ''/d/'') \<longrightarrow>
        candidate (a @ ''/d/'' @ b) None h = ''https://'' @ h @ ''/'' @ b)
   \<and> candidate g (Some n) h = ''https://'' @ h @ ''/'' @ n
   \<and> ((fname \<noteq> None \<or> py_find g ''/d/'' \<noteq> -1)
        \<and> (\<forall>i < length pre.
               moves_on (http E (request_count w + i) (candidate g fname (pre ! i))))
        \<and> http E (request_count w + length pre) (candidate g fname h) = Responds r
        \<longrightarrow>
          get_cdn_file_url E (Some (pre @ h # post)) g fname w =
            (if status_code r = 200
             then (Inr (Some (candidate g fname h)),
                   requested (map (candidate g fname) (pre @ [h])) w)
             else if status_code r = 404
             then probe_hosts E g fname post (requested (map (candidate g fname) (pre @ [h])) w)
             else if status_code r = 403
             then (Inr None,
                   print (RequestBlocked g) (requested (map (candidate g fname) (pre @ [h])) w))
             else (Inr None,
                   print (CdnHttpError (status_code r) g)
                     (requested (map (candidate g fname) (pre @ [h])) w))))
   \<and> ((fname \<noteq> None \<or> py_find g ''/d/'' \<noteq> -1)
        \<and> (\<forall>i < length (h # post).
               moves_on (http E (request_count w + i) (candidate g fname ((h # post) ! i))))
        \<longrightarrow>
          get_cdn_file_url E (Some (h # post)) g fname w =
            (Inr None, requested (map (candidate g fname) (h # post)) w))"
proof (intro conjI impI)
  show "get_cdn_file_url E None g fname w = (Inr None, print (CdnListEmpty g) w)"
    by (simp add: get_cdn_file_url_def)
  show "get_cdn_file_url E (Some []) g fname w = (Inr None, print (CdnListEmpty g) w)"
    by (simp add: get_cdn_file_url_def)
  show "get_cdn_file_url E (Some (h # post)) g None w = (Inr None, print (ExpectedD g) w)"
    if "py_find g ''/d/'' = -1"
    using that by (simp add: get_cdn_file_url_def url_to_test_def)
  show "candidate (a @ ''/d/'' @ b) None h = ''https://'' @ h @ ''/'' @ b"
    if "\<forall>k < length a. \<not> startswith (drop k (a @ ''/d/'' @ b)) ''/d/''"
    using py_find_first[OF that] by (simp add: candidate_def nat_add_distrib)
  show "candidate g (Some n) h = ''https://'' @ h @ ''/'' @ n"
    by (simp add: candidate_def)
next
  assume H: "(fname \<noteq> None \<or> py_find g ''/d/'' \<noteq> -1)
        \<and> (\<forall>i < length pre.
               moves_on (http E (request_count w + i) (candidate g fname (pre ! i))))
        \<and> http E (request_count w + length pre) (candidate g fname h) = Responds r"
  then have target: "fname \<noteq> None \<or> py_find g ''/d/'' \<noteq> -1"
    and skip: "\<forall>i < length pre.
               moves_on (http E (request_count w + i) (candidate g fname (pre ! i)))"
    and ans: "http E (request_count (requested (map (candidate g fname) pre) w))
                (candidate g fname h) = Responds r"
    by simp_all
  have "get_cdn_file_url E (Some (pre @ h # post)) g fname w
          = probe_hosts E g fname (pre @ h # post) w"
    by (cases "pre @ h # post") (simp_all add: get_cdn_file_url_def)
  also have "\<dots> = probe_hosts E g fname (h # post) (requested (map (candidate g fname) pre) w)"
    by (rule probe_hosts_skip[OF target skip])
  finally show "get_cdn_file_url E (Some (pre @ h # post)) g fname w =
            (if status_code r = 200
             then (Inr (Some (candidate g fname h)),
                   requested (map (candidate g fname) (pre @ [h])) w)
             else if status_code r = 404
             then probe_hosts E g fname post (requested (map (candidate g fname) (pre @ [h])) w)
             else if status_code r = 403
             then (Inr None,
                   print (RequestBlocked g) (requested (map (candidate g fname) (pre @ [h])) w))
             else (Inr None,
                   print (CdnHttpError (status_code r) g)
                     (requested (map (candidate g fname) (pre @ [h])) w)))"
    using probe_hosts_answer[OF target ans, of post]
    by (simp add: requested_snoc requested_Cons)
next
  assume H: "(fname \<noteq> None \<or> py_find g ''/d/'' \<noteq> -1)
        \<and> (\<forall>i < length (h # post).
               moves_on (http E (request_count w + i) (candidate g fname ((h # post) ! i))))"
  then have target: "fname \<noteq> None \<or> py_find g ''/d/'' \<noteq> -1"
    and skip: "\<forall>i < length (h # post).
               moves_on (http E (request_count w + i) (candidate g fname ((h # post) ! i)))"
    by blast+
  have "get_cdn_file_url E (Some (h # post)) g fname w = probe_hosts E g fname ((h # post) @ []) w"
    by (simp add: get_cdn_file_url_def)
  also have "\<dots> = probe_hosts E g fname [] (requested (map (candidate g fname) (h # post)) w)"
    by (rule probe_hosts_skip[OF target skip])
  finally show "get_cdn_file_url E (Some (h # post)) g fname w =
            (Inr None, requested (map (candidate g fname) (h # post)) w)"
    by simp
qed


theorem cdn_probe_order_witness:
  "py_find clip_page ''/d/'' \<noteq> -1
   \<and> moves_on (http (scripted [Responds (status_response 404), Responds ok_response])
                 (request_count empty_world + 0) (candidate clip_page None ''cdn-1.bunkr.ru''))
   \<and> http (scripted [Responds (status_response 404), Responds ok_response])
         (request_count empty_world + length [''cdn-1.bunkr.ru''])
         (candidate clip_page None ''cdn-2.bunkr.ru'') = Responds ok_response
   \<and> get_cdn_file_url (scripted [Responds (status_response 404), Responds ok_response])
         (Some three_hosts) clip_page None empty_world
       = (Inr (Some ''https://cdn-2.bunkr.ru/clip.mp4''),
          requested [''https://cdn-1.bunkr.ru/clip.mp4'', ''https://cdn-2.bunkr.ru/clip.mp4'']
            empty_world)
   \<and> http (scripted [Responds (status_response 403)]) (request_count empty_world + length ([] :: string list))
         (candidate clip_page None ''cdn-1.bunkr.ru'') = Responds (status_response 403)
   \<and> get_cdn_file_url (scripted [Responds (status_response 403)])
         (Some three_hosts) clip_page None empty_world
       = (Inr None,
          print (RequestBlocked clip_page)
            (requested [''https://cdn-1.bunkr.ru/clip.mp4''] empty_world))
   \<and> get_cdn_file_url (scripted []) (Some three_hosts) clip_page None empty_world
       = (Inr None,
          requested [''https://cdn-1.bunkr.ru/clip.mp4'', ''https://cdn-2.bunkr.ru/clip.mp4'',
                     ''https://cdn-3.bunkr.ru/clip.mp4''] empty_world)
   \<and> py_find ''https://bunkr.sk/v/clip.mp4'' ''/d/'' = -1
   \<and> get_cdn_file_url (scripted []) (Some three_hosts) ''https://bunkr.sk/v/clip.mp4'' None
         empty_world
       = (Inr None, print (ExpectedD ''https://bunkr.sk/v/clip.mp4'') empty_world)"
proof -
  let ?E1 = "scripted [Responds (status_response 404), Responds ok_response]"
  let ?E2 = "scripted [Responds (status_response 403)]"
  have h1: "(None \<noteq> (None :: string option) \<or> py_find clip_page ''/d/'' \<noteq> -1)
        \<and> (\<forall>i < length [''cdn-1.bunkr.ru''].
               moves_on (http ?E1 (request_count empty_world + i)
                           (candidate clip_page None ([''cdn-1.bunkr.ru''] ! i))))
        \<and> http ?E1 (request_count empty_world + length [''cdn-1.bunkr.ru''])
              (candidate clip_page None ''cdn-2.bunkr.ru'') = Responds ok_response"
    by (simp add: clip_has_d scripted_def status_response_def ok_response_def empty_world_def
        request_count_def requests_of_def)
  have h2: "(None \<noteq> (None :: string option) \<or> py_find clip_page ''/d/'' \<noteq> -1)
        \<and> (\<forall>i < length ([] :: string list).
               moves_on (http ?E2 (request_count empty_world + i)
                           (candidate clip_page None ([] ! i))))
        \<and> http ?E2 (request_count empty_world + length ([] :: string list))
              (candidate clip_page None ''cdn-1.bunkr.ru'') = Responds (status_response 403)"
    by (simp add: clip_has_d scripted_def empty_world_def request_count_def requests_of_def)
  have h3: "(None \<noteq> (None :: string option) \<or> py_find clip_page ''/d/'' \<noteq> -1)
        \<and> (\<forall>i < length (''cdn-1.bunkr.ru'' # [''cdn-2.bunkr.ru'', ''cdn-3.bunkr.ru'']).
               moves_on (http (scripted []) (request_count empty_world + i)
                  (candidate clip_page None
                     ((''cdn-1.bunkr.ru'' # [''cdn-2.bunkr.ru'', ''cdn-3.bunkr.ru'']) ! i))))"
    by (simp add: clip_has_d scripted_def)
  have h4: "py_find ''https://bunkr.sk/v/clip.mp4'' ''/d/'' = -1"
    by (simp add: startswith_def)
  note hit = cdn_probe_order[where E = ?E1 and g = clip_page and fname = None
      and w = empty_world and pre = "[''cdn-1.bunkr.ru'']" and h = "''cdn-2.bunkr.ru''"
      and post = "[''cdn-3.bunkr.ru'']" and r = ok_response,
      THEN conjunct2, THEN conjunct2, THEN conjunct2, THEN conjunct2, THEN conjunct2,
      THEN conjunct1, THEN mp, OF h1]
  note stop = cdn_probe_order[where E = ?E2 and g = clip_page and fname = None
      and w = empty_world and pre = "[]" and h = "''cdn-1.bunkr.ru''"
      and post = "[''cdn-2.bunkr.ru'', ''cdn-3.bunkr.ru'']" and r = "status_response 403",
      THEN conjunct2, THEN conjunct2, THEN conjunct2, THEN conjunct2, THEN conjunct2,
      THEN conjunct1, THEN mp, OF h2]
  note none = cdn_probe_order[where E = "scripted []" and g = clip_page and fname = None
      and w = empty_world and h = "''cdn-1.bunkr.ru''"
      and post = "[''cdn-2.bunkr.ru'', ''cdn-3.bunkr.ru'']",
      THEN conjunct2, THEN conjunct2, THEN conjunct2, THEN conjunct2, THEN conjunct2,
      THEN conjunct2, THEN mp, OF h3]
  note nod = cdn_probe_order[where E = "scripted []" and g = "''https://bunkr.sk/v/clip.mp4''"
      and w = empty_world and h = "''cdn-1.bunkr.ru''"
      and post = "[''cdn-2.bunkr.ru'', ''cdn-3.bunkr.ru'']",
      THEN conjunct2, THEN conjunct2, THEN conjunct1, THEN mp, OF h4]
  show ?thesis
    using h1 h2 h4 hit stop none nod
    by (simp add: clip_candidate clip_has_d three_hosts_def status_response_def ok_response_def)
qed

section \<open>Effects of the steps\<close>


lemma events_emit [simp]: "events (emit e w) = events w @ [e]"
  by (simp add: emit_def)

lemma events_print [simp]: "events (print m w) = events w @ [Print m]"
  by (simp add: print_def)

lemma events_sleep [simp]: "events (sleep n w) = events w @ [Sleep n]"
  by (simp add: sleep_def)

lemma events_write_file [simp]: "events (write_file p c w) = events w @ [WriteFile p c]"
  by (simp add: write_file_def)

lemma events_append_file [simp]: "events (append_file p c w) = events w @ [AppendFile p c]"
  by (simp add: append_file_def)

lemma events_mark [simp]:
  "events (mark_as_downloaded u dp w) = events w @ [AppendFile (ledger_path dp) (u @ newline)]"
  by (simp add: mark_as_downloaded_def)

lemma files_write_file_same [simp]: "files (write_file p c w) p = Some c"
  by (simp add: write_file_def emit_def)

section \<open>The integrity check of download\<close>

lemma download_fetched:
  assumes "http E (request_count w) item_url = Responds r"
    and "status_code r = 200" and "final_url r \<noteq> maintenance_url"
    and "\<not> unwritable E (saved_path E download_path item_url name_override)"
    and "stream_error r = None"
  shows "download E item_url download_path is_bunkr name_override w =
     (let w2 = write_file (saved_path E download_path item_url name_override) (written_body r)
                 (emit (Request item_url) w)
      in if is_bunkr \<and> parse_file_size (content_length r) > 0
            \<and> int (length (written_body r)) \<noteq> parse_file_size (content_length r)
         then (Inr (), print (SizeMismatch (saved_name E item_url name_override)) w2)
         else (Inr (), mark_as_downloaded item_url download_path w2))"
  using assms
  by (simp add: download_def session_get_def saved_path_def saved_name_def Let_def)

lemma download_marks_only_when_complete:
  assumes "download E item_url download_path is_bunkr name_override w = (res, w')"
    and "AppendFile p s \<in> set (new_events w w')"
  shows "p = ledger_path download_path \<and> s = item_url @ newline \<and> res = Inr ()
         \<and> (\<exists>r. http E (request_count w) item_url = Responds r
                \<and> status_code r = 200 \<and> stream_error r = None
                \<and> new_events w w' =
                    [Request item_url,
                     WriteFile (saved_path E download_path item_url name_override) (written_body r),
                     AppendFile (ledger_path download_path) (item_url @ newline)]
                \<and> (is_bunkr \<and> parse_file_size (content_length r) > 0
                     \<longrightarrow> int (length (written_body r)) = parse_file_size (content_length r)))"
proof (cases "http E (request_count w) item_url")
  case (Raises e)
  with assms show ?thesis
    by (auto simp: download_def session_get_def Let_def new_events_def)
next
  case (Responds r)
  show ?thesis
  proof (cases "status_code r = 200 \<and> final_url r \<noteq> maintenance_url
                \<and> \<not> unwritable E (saved_path E download_path item_url name_override)
                \<and> stream_error r = None")
    case True
    with Responds assms show ?thesis
      using download_fetched[of E w item_url r download_path name_override is_bunkr]
      by (auto simp: Let_def new_events_def split: if_splits)
  next
    case False
    with Responds assms show ?thesis
      by (auto simp: download_def session_get_def Let_def new_events_def saved_path_def
          saved_name_def split: if_splits option.splits)
  qed
qed


lemma short_facts:
  "status_code short_response = 200" "final_url short_response \<noteq> maintenance_url"
  "stream_error short_response = None" "content_length short_response = Integer 1000"
  "length (written_body short_response) = 900"
  by (simp_all add: short_response_def ok_response_def maintenance_url_def written_body_def)

lemma full_facts:
  "status_code full_response = 200" "final_url full_response \<noteq> maintenance_url"
  "stream_error full_response = None" "content_length full_response = Integer 1000"
  "length (written_body full_response) = 1000"
  by (simp_all add: full_response_def ok_response_def maintenance_url_def written_body_def)

text \<open>
  C2. For a bunkr-family download whose response declares a content-length greater than
  0 and whose body has been written to the end: when the size of the file on disk
  differs from the declared length, \<open>download\<close> prints the corruption warning and
  returns without appending to the ledger; otherwise it appends the URL. And for every
  download: whenever it appends to a file, the file is the ledger and the text is the
  resolved URL (not the file name), the response had status 200, the body was written to
  the end before the append, and for a bunkr-family task with a positive declared length
  the written size equals that length.
\<close>

theorem download_integrity:
  "(http E (request_count w) item_url = Responds r
      \<and> status_code r = 200 \<and> final_url r \<noteq> maintenance_url
      \<and> \<not> unwritable E (saved_path E download_path item_url name_override)
      \<and> stream_error r = None
      \<and> content_length r = Integer n \<and> n > 0
    \<longrightarrow>
      files (write_file (saved_path E download_path item_url name_override) (written_body r)
               (emit (Request item_url) w))
        (saved_path E download_path item_url name_override) = Some (written_body r)
      \<and> download E item_url download_path True name_override w =
          (if int (length (written_body r)) \<noteq> n
           then (Inr (),
                 print (SizeMismatch (saved_name E item_url name_override))
                   (write_file (saved_path E download_path item_url name_override)
                      (written_body r) (emit (Request item_url) w)))
           else (Inr (),
                 mark_as_downloaded item_url download_path
                   (write_file (saved_path E download_path item_url name_override)
                      (written_body r) (emit (Request item_url) w))))
      \<and> new_events w (snd (download E item_url download_path True name_override w)) =
          [Request item_url,
           WriteFile (saved_path E download_path item_url name_override) (written_body r),
           (if int (length (written_body r)) \<noteq> n
            then Print (SizeMismatch (saved_name E item_url name_override))
            else AppendFile (ledger_path download_path) (item_url @ newline))])
   \<and> (download E item_url download_path is_bunkr name_override w = (res, w')
        \<and> AppendFile p s \<in> set (new_events w w')
      \<longrightarrow>
        p = ledger_path download_path \<and> s = item_url @ newline \<and> res = Inr ()
        \<and> (\<exists>r. http E (request_count w) item_url = Responds r
               \<and> status_code r = 200 \<and> stream_error r = None
               \<and> new_events w w' =
                   [Request item_url,
                    WriteFile (saved_path E download_path item_url name_override) (written_body r),
                    AppendFile (ledger_path download_path) (item_url @ newline)]
               \<and> (is_bunkr \<and> parse_file_size (content_length r) > 0
                    \<longrightarrow> int (length (written_body r)) = parse_file_size (content_length r))))"
proof (intro conjI impI)
  assume H: "http E (request_count w) item_url = Responds r
      \<and> status_code r = 200 \<and> final_url r \<noteq> maintenance_url
      \<and> \<not> unwritable E (saved_path E download_path item_url name_override)
      \<and> stream_error r = None
      \<and> content_length r = Integer n \<and> n > 0"
  then have size: "parse_file_size (content_length r) = n" "n > 0"
    by (simp_all add: parse_file_size_def)
  have dl: "download E item_url download_path True name_override w =
          (if int (length (written_body r)) \<noteq> n
           then (Inr (),
                 print (SizeMismatch (saved_name E item_url name_override))
                   (write_file (saved_path E download_path item_url name_override)
                      (written_body r) (emit (Request item_url) w)))
           else (Inr (),
                 mark_as_downloaded item_url download_path
                   (write_file (saved_path E download_path item_url name_override)
                      (written_body r) (emit (Request item_url) w))))"
    using H size download_fetched[of E w item_url r download_path name_override True]
    by (simp add: Let_def)
  show "files (write_file (saved_path E download_path item_url name_override) (written_body r)
               (emit (Request item_url) w))
        (saved_path E download_path item_url name_override) = Some (written_body r)"
    by simp
  show "download E item_url download_path True name_override w =
          (if int (length (written_body r)) \<noteq> n
           then (Inr (),
                 print (SizeMismatch (saved_name E item_url name_override))
                   (write_file (saved_path E download_path item_url name_override)
                      (written_body r) (emit (Request item_url) w)))
           else (Inr (),
                 mark_as_downloaded item_url download_path
                   (write_file (saved_path E download_path item_url name_override)
                      (written_body r) (emit (Request item_url) w))))"
    by (rule dl)
  show "new_events w (snd (download E item_url download_path True name_override w)) =
          [Request item_url,
           WriteFile (saved_path E download_path item_url name_override) (written_body r),
           (if int (length (written_body r)) \<noteq> n
            then Print (SizeMismatch (saved_name E item_url name_override))
            else AppendFile (ledger_path download_path) (item_url @ newline))]"
    by (simp add: dl new_events_def)
next
  assume H: "download E item_url download_path is_bunkr name_override w = (res, w')
        \<and> AppendFile p s \<in> set (new_events w w')"
  then have a: "download E item_url download_path is_bunkr name_override w = (res, w')"
    and b: "AppendFile p s \<in> set (new_events w w')" by simp_all
  note C = download_marks_only_when_complete[OF a b]
  from C show "p = ledger_path download_path" by simp
  from C show "s = item_url @ newline" by simp
  from C show "res = Inr ()" by simp
  from C show "\<exists>r. http E (request_count w) item_url = Responds r
               \<and> status_code r = 200 \<and> stream_error r = None
               \<and> new_events w w' =
                   [Request item_url,
                    WriteFile (saved_path E download_path item_url name_override) (written_body r),
                    AppendFile (ledger_path download_path) (item_url @ newline)]
               \<and> (is_bunkr \<and> parse_file_size (content_length r) > 0
                    \<longrightarrow> int (length (written_body r)) = parse_file_size (content_length r))"
    by simp
qed

theorem download_integrity_witness:
  "http (scripted [Responds short_response]) (request_count empty_world) file_url
     = Responds short_response
   \<and> status_code short_response = 200 \<and> final_url short_response \<noteq> maintenance_url
   \<and> \<not> unwritable (scripted [Responds short_response])
         (saved_path (scripted [Responds short_response]) ''downloads/album'' file_url None)
   \<and> stream_error short_response = None
   \<and> content_length short_response = Integer 1000 \<and> (1000 :: int) > 0
   \<and> length (written_body short_response) = 900
   \<and> new_events empty_world
         (snd (download (scripted [Responds short_response]) file_url ''downloads/album'' True None
                 empty_world))
       = [Request file_url,
          WriteFile (saved_path (scripted [Responds short_response]) ''downloads/album'' file_url None)
            (written_body short_response),
          Print (SizeMismatch (saved_name (scripted [Responds short_response]) file_url None))]
   \<and> AppendFile (ledger_path ''downloads/album'') (file_url @ newline)
       \<in> set (new_events empty_world
                (snd (download (scripted [Responds full_response]) file_url ''downloads/album''
                        True None empty_world)))
   \<and> http (scripted [Responds full_response]) (request_count empty_world) file_url
       = Responds full_response
   \<and> int (length (written_body full_response)) = parse_file_size (content_length full_response)"
proof -
  let ?E = "scripted [Responds short_response]"
  let ?F = "scripted [Responds full_response]"
  have h0: "http ?E (request_count empty_world) file_url = Responds short_response"
    by (simp add: scripted_def empty_world_def request_count_def requests_of_def)
  have f0: "http ?F (request_count empty_world) file_url = Responds full_response"
    by (simp add: scripted_def empty_world_def request_count_def requests_of_def)
  have h1: "http ?E (request_count empty_world) file_url = Responds short_response
      \<and> status_code short_response = 200 \<and> final_url short_response \<noteq> maintenance_url
      \<and> \<not> unwritable ?E (saved_path ?E ''downloads/album'' file_url None)
      \<and> stream_error short_response = None
      \<and> content_length short_response = Integer 1000 \<and> (1000 :: int) > 0"
    using h0 by (simp add: short_facts) (simp add: scripted_def)
  have f1: "http ?F (request_count empty_world) file_url = Responds full_response
      \<and> status_code full_response = 200 \<and> final_url full_response \<noteq> maintenance_url
      \<and> \<not> unwritable ?F (saved_path ?F ''downloads/album'' file_url None)
      \<and> stream_error full_response = None
      \<and> content_length full_response = Integer 1000 \<and> (1000 :: int) > 0"
    using f0 by (simp add: full_facts) (simp add: scripted_def)
  note short = download_integrity[where E = ?E and w = empty_world and item_url = file_url
      and r = short_response and download_path = "''downloads/album''" and name_override = None
      and n = 1000, THEN conjunct1, THEN mp, OF h1, THEN conjunct2, THEN conjunct2]
  note full = download_integrity[where E = ?F and w = empty_world and item_url = file_url
      and r = full_response and download_path = "''downloads/album''" and name_override = None
      and n = 1000, THEN conjunct1, THEN mp, OF f1, THEN conjunct2, THEN conjunct2]
  have mark: "AppendFile (ledger_path ''downloads/album'') (file_url @ newline)
       \<in> set (new_events empty_world
                (snd (download ?F file_url ''downloads/album'' True None empty_world)))"
    using full by (simp add: full_facts)
  obtain res w' where dl: "download ?F file_url ''downloads/album'' True None empty_world = (res, w')"
    by (cases "download ?F file_url ''downloads/album'' True None empty_world") blast
  have m2: "download ?F file_url ''downloads/album'' True None empty_world = (res, w')
        \<and> AppendFile (ledger_path ''downloads/album'') (file_url @ newline)
              \<in> set (new_events empty_world w')"
    using mark dl by simp
  note only = download_integrity[where E = ?F and w = empty_world and item_url = file_url
      and download_path = "''downloads/album''" and name_override = None and is_bunkr = True
      and res = res and w' = w' and p = "ledger_path ''downloads/album''"
      and s = "file_url @ newline", THEN conjunct2, THEN mp, OF m2]
  have size: "int (length (written_body full_response)) = parse_file_size (content_length full_response)"
    using only f0 by (auto simp: full_facts parse_file_size_def)
  show ?thesis
    using h1 short mark f0 size by (simp add: short_facts)
qed

section \<open>Attempts, sleeps and ledger entries\<close>

lemma sleeps_append [simp]: "sleeps (a @ b) = sleeps a @ sleeps b"
  by (simp add: sleeps_def)

lemma ledger_appends_append [simp]:
  "ledger_appends dp (a @ b) = ledger_appends dp a @ ledger_appends dp b"
  by (simp add: ledger_appends_def)

lemma requests_of_append [simp]: "requests_of (a @ b) = requests_of a @ requests_of b"
  by (simp add: requests_of_def)

lemma sleeps_Cons [simp]:
  "sleeps (Request u # es) = sleeps es" "sleeps (Print m # es) = sleeps es"
  "sleeps (Sleep k # es) = k # sleeps es" "sleeps (WriteFile p c # es) = sleeps es"
  "sleeps (AppendFile p c # es) = sleeps es"
  by (simp_all add: sleeps_def)

lemma requests_of_Cons [simp]:
  "requests_of (Request u # es) = u # requests_of es" "requests_of (Print m # es) = requests_of es"
  "requests_of (Sleep k # es) = requests_of es" "requests_of (WriteFile p c # es) = requests_of es"
  "requests_of (AppendFile p c # es) = requests_of es"
  by (simp_all add: requests_of_def)

lemma ledger_appends_Cons [simp]:
  "ledger_appends dp (Request u # es) = ledger_appends dp es"
  "ledger_appends dp (Print m # es) = ledger_appends dp es"
  "ledger_appends dp (Sleep k # es) = ledger_appends dp es"
  "ledger_appends dp (WriteFile p c # es) = ledger_appends dp es"
  "ledger_appends dp (AppendFile p c # es)
     = (if p = ledger_path dp then [c] else []) @ ledger_appends dp es"
  by (simp_all add: ledger_appends_def)

lemma observe_Nil [simp]: "sleeps [] = []" "requests_of [] = []" "ledger_appends dp [] = []"
  by (simp_all add: sleeps_def requests_of_def ledger_appends_def)










lemma request_count_empty [simp]: "request_count empty_world = 0"
  by (simp add: request_count_def requests_of_def empty_world_def)






section \<open>The bunkr resolver\<close>











section \<open>The filter on the resolved items\<close>

lemma appends_append [simp]: "appends (a @ b) = appends a @ appends b"
  by (simp add: appends_def)










lemma events_write_url [simp]:
  "events (write_url_to_list x dp w) = events w @ [AppendFile (list_path dp) (x @ newline)]"
  by (simp add: write_url_to_list_def)











section \<open>An unresolved direct link\<close>

lemma archive_run:
  "fst (process_url archive_env (Some three_hosts) archive_url 3 [] False None empty_world)
     = Inl TypeError"
  "events (snd (process_url archive_env (Some three_hosts) archive_url 3 [] False None
                  empty_world))
     = [Request archive_url, Request archive_url]"
  by code_simp+

lemma archive_file_run:
  "fst (process_urls archive_env (Some three_hosts) 3 [] False None [archive_url, album_url]
          empty_world)
     = Inl TypeError"
  "events (snd (process_urls archive_env (Some three_hosts) 3 [] False None
                  [archive_url, album_url] empty_world))
     = [Print (ProcessingUrl archive_url), Request archive_url, Request archive_url]"
  by code_simp+

lemma album_run:
  "fst (process_url album_env (Some three_hosts) album_url 3 [] False None empty_world) = Inr ()"
  "events (snd (process_url album_env (Some three_hosts) album_url 3 [] False None empty_world))
     = [Request album_url, WriteFile ''downloads/Album/already_downloaded.txt'' [],
        Request archive_url, Print UnableToResolve, Print DownloadCompleted]"
  by code_simp+

lemma cyber_run:
  "fst (process_url cyber_env None cyber_album_url 3 [] False None empty_world) = Inl KeyError"
  "events (snd (process_url cyber_env None cyber_album_url 3 [] False None empty_world))
     = [Request cyber_album_url, WriteFile ''downloads/Album/already_downloaded.txt'' [],
        Request ''https://cyberdrop.me/api/f/abc'']"
  by code_simp+

text \<open>
  C1. The claim is that no failure of resolving one item leaves \<open>process_url\<close>. The code
  does not keep it. On a bunkr direct-link page for which the resolver returns nothing,
  \<open>process_url\<close> subscripts that result and \<open>TypeError\<close> leaves it after the two requests;
  in a run over a file of URLs the URL after it is never requested. The loop over the
  items of a gallery does handle the same result of the resolver, for the same page: it
  prints that the item is not resolved and the batch completes. And on a cyberdrop
  album whose API answers a JSON object without \<open>url\<close>, \<open>KeyError\<close> leaves \<open>process_url\<close>.
\<close>

theorem unresolved_direct_link_aborts:
  "fst (process_url archive_env (Some three_hosts) archive_url 3 [] False None empty_world)
     = Inl TypeError
   \<and> events (snd (process_url archive_env (Some three_hosts) archive_url 3 [] False None
                     empty_world))
       = [Request archive_url, Request archive_url]
   \<and> fst (process_urls archive_env (Some three_hosts) 3 [] False None [archive_url, album_url]
            empty_world)
       = Inl TypeError
   \<and> events (snd (process_urls archive_env (Some three_hosts) 3 [] False None
                     [archive_url, album_url] empty_world))
       = [Print (ProcessingUrl archive_url), Request archive_url, Request archive_url]
   \<and> fst (process_url album_env (Some three_hosts) album_url 3 [] False None empty_world)
       = Inr ()
   \<and> events (snd (process_url album_env (Some three_hosts) album_url 3 [] False None
                     empty_world))
       = [Request album_url, WriteFile ''downloads/Album/already_downloaded.txt'' [],
          Request archive_url, Print UnableToResolve, Print DownloadCompleted]
   \<and> fst (process_url cyber_env None cyber_album_url 3 [] False None empty_world)
       = Inl KeyError
   \<and> events (snd (process_url cyber_env None cyber_album_url 3 [] False None empty_world))
       = [Request cyber_album_url, WriteFile ''downloads/Album/already_downloaded.txt'' [],
          Request ''https://cyberdrop.me/api/f/abc'']"
  using archive_run archive_file_run album_run cyber_run by simp

end
